theory Spec2Isabelle
  imports Complex_Main "HOL-Library.Log_Nat"
begin

section \<open>JavaScript values, numbers and exceptions\<close>

text \<open>
  A JavaScript number is an IEEE 754 binary64 value. \<open>Fin x\<close> is the finite double
  whose value is the real \<open>x\<close> (positive zero for \<open>x = 0\<close>), \<open>NegZero\<close> is the
  negative zero, and the two infinities and NaN are values of their own. The arithmetic
  rounds every exact result to the nearest double, ties to even, and overflows to an
  infinity.
\<close>

datatype jsnum = Fin real | NegZero | PInf | NInf | NaN

text \<open>The nearest integer of a real, the even one of the two at a tie.\<close>

definition round_half_even :: "real \<Rightarrow> int" where
  "round_half_even x =
     (let f = \<lfloor>x\<rfloor>; d = x - of_int f
      in if d < 1 / 2 then f
         else if 1 / 2 < d then f + 1
         else if even f then f else f + 1)"

text \<open>
  Rounding of a magnitude \<open>a \<ge> 0\<close>. In units of the smallest subnormal,
  \<open>2 ^ - 1074\<close>, every double is an integer of at most 53 significant bits times a
  power of two: a value of more than 53 bits loses its \<open>k\<close> low bits. None is the
  overflow, from \<open>2 ^ 1024\<close> on.
\<close>

definition round_magnitude :: "real \<Rightarrow> real option" where
  "round_magnitude a =
     (let y = a * 2 ^ 1074;
          k = nat (bitlen \<lfloor>y\<rfloor> - 53);
          n = round_half_even (y / 2 ^ k) * 2 ^ k
      in if 2 ^ 2098 \<le> n then None else Some (of_int n / 2 ^ 1074))"

text \<open>Rounding of a non-zero exact result; a negative one that underflows gives \<open>-0\<close>.\<close>

definition round_double :: "real \<Rightarrow> jsnum" where
  "round_double x =
     (case round_magnitude \<bar>x\<bar> of
        None \<Rightarrow> (if x < 0 then NInf else PInf)
      | Some r \<Rightarrow> (if x < 0 then (if r = 0 then NegZero else Fin (- r)) else Fin r))"

fun js_neg :: "jsnum \<Rightarrow> jsnum" where
  "js_neg (Fin x) = (if x = 0 then NegZero else Fin (- x))"
| "js_neg NegZero = Fin 0"
| "js_neg PInf = NInf"
| "js_neg NInf = PInf"
| "js_neg NaN = NaN"

fun is_finite :: "jsnum \<Rightarrow> bool" where
  "is_finite (Fin x) = True"
| "is_finite NegZero = True"
| "is_finite _ = False"

fun fin_val :: "jsnum \<Rightarrow> real" where
  "fin_val (Fin x) = x"
| "fin_val _ = 0"

fun sign_bit :: "jsnum \<Rightarrow> bool" where
  "sign_bit (Fin x) = (x < 0)"
| "sign_bit NegZero = True"
| "sign_bit NInf = True"
| "sign_bit _ = False"

definition signed_zero :: "bool \<Rightarrow> jsnum" where
  "signed_zero negative = (if negative then NegZero else Fin 0)"

definition signed_infinity :: "bool \<Rightarrow> jsnum" where
  "signed_infinity negative = (if negative then NInf else PInf)"

text \<open>
  \<open>x + y\<close>. An exact sum of zero is \<open>+0\<close>, unless both operands are \<open>-0\<close>.
\<close>

definition js_add :: "jsnum \<Rightarrow> jsnum \<Rightarrow> jsnum" where
  "js_add x y =
     (if x = NaN \<or> y = NaN then NaN
      else if is_finite x \<and> is_finite y then
        (if fin_val x + fin_val y = 0 then signed_zero (x = NegZero \<and> y = NegZero)
         else round_double (fin_val x + fin_val y))
      else if is_finite x then y
      else if is_finite y then x
      else if x = y then x
      else NaN)"

text \<open>\<open>x - y\<close> is \<open>x + (-y)\<close>, also on zeros and infinities.\<close>

definition js_sub :: "jsnum \<Rightarrow> jsnum \<Rightarrow> jsnum" where
  "js_sub x y = js_add x (js_neg y)"

text \<open>
  \<open>x / y\<close>. The sign of a zero or an infinity is the exclusive or of the operands'
  signs; \<open>0 / 0\<close> and \<open>\<infinity> / \<infinity>\<close> are NaN.
\<close>

definition js_div :: "jsnum \<Rightarrow> jsnum \<Rightarrow> jsnum" where
  "js_div x y =
     (if x = NaN \<or> y = NaN then NaN
      else if is_finite x \<and> is_finite y then
        (if fin_val y = 0 then
           (if fin_val x = 0 then NaN else signed_infinity (sign_bit x \<noteq> sign_bit y))
         else if fin_val x = 0 then signed_zero (sign_bit x \<noteq> sign_bit y)
         else round_double (fin_val x / fin_val y))
      else if is_finite x then signed_zero (sign_bit x \<noteq> sign_bit y)
      else if is_finite y then signed_infinity (sign_bit x \<noteq> sign_bit y)
      else NaN)"

text \<open>
  The values a caller can hand to \<open>createPlaceOrderTx\<close>. An object is the list of its
  properties; host objects (connections, public keys, accounts, big numbers) are objects
  too, and values are compared by structure.
\<close>

datatype jsval =
    JUndefined
  | JNull
  | JBool bool
  | JNum jsnum
  | JStr string
  | JArr "jsval list"
  | JObj "(string \<times> jsval) list"

text \<open>
  What a rejected promise or a \<open>throw\<close> carries: the engine's TypeError, an
  \<open>Error\<close> built with a message, or any other value thrown by the SDK or the node.
\<close>

datatype exn = TypeError | Error string | Thrown jsval

text \<open>\<open>await p\<close> followed by the rest of the function: a rejection skips the rest.\<close>

definition then_res :: "exn + 'a \<Rightarrow> ('a \<Rightarrow> exn + 'b) \<Rightarrow> exn + 'b" where
  "then_res p k = (case p of Inl e \<Rightarrow> Inl e | Inr x \<Rightarrow> k x)"

text \<open>\<open>try { body } catch (err) { handler }\<close>.\<close>

definition try_catch :: "exn + 'a \<Rightarrow> (exn \<Rightarrow> exn + 'a) \<Rightarrow> exn + 'a" where
  "try_catch body handler = (case body of Inl e \<Rightarrow> handler e | Inr x \<Rightarrow> Inr x)"

text \<open>
  \<open>Promise.all([p, q])\<close>: both promises have been created; the result is the pair of
  their values, or a rejection when one of them rejects. When both reject, JavaScript
  reports the one that settles first; the model reports the first of the array.
\<close>

definition promise_all2 :: "exn + 'a \<Rightarrow> exn + 'b \<Rightarrow> exn + ('a \<times> 'b)" where
  "promise_all2 p q =
     (case p of
        Inl e \<Rightarrow> Inl e
      | Inr x \<Rightarrow> (case q of Inl e \<Rightarrow> Inl e | Inr y \<Rightarrow> Inr (x, y)))"

definition is_nullish :: "jsval \<Rightarrow> bool" where
  "is_nullish v = (v = JUndefined \<or> v = JNull)"

text \<open>
  Reading property \<open>k\<close> of a value that is not null or undefined: an absent property
  reads as undefined. (None of the property names the program reads is a property of a
  primitive or of an array.)
\<close>

fun get_prop :: "jsval \<Rightarrow> string \<Rightarrow> jsval" where
  "get_prop (JObj ps) k = (case map_of ps k of None \<Rightarrow> JUndefined | Some v \<Rightarrow> v)"
| "get_prop _ k = JUndefined"

section \<open>The external SDK and the ledger node\<close>

text \<open>
  One aggregated level of \<open>Orderbook.getL2\<close>: the array
  \<open>[price, size, priceLots, sizeLots]\<close>.
\<close>

type_synonym l2level = "jsnum \<times> jsnum \<times> int \<times> int"

record memcmp_filter =
  offset :: nat
  bytes :: string

record rpc_args =
  programId :: string
  commitment :: jsval
  filters :: "memcmp_filter list"
  encoding :: string

record rpc_error =
  message :: string

record rpc_account =
  data :: "string list"
  executable :: bool
  owner :: string
  lamports :: nat

record rpc_entry =
  pubkey :: string
  account :: rpc_account

record rpc_response =
  error :: "rpc_error option"
  result :: "rpc_entry list"

text \<open>
  Everything the wrapper delegates to: the calls of \<open>@project-serum/serum\<close>,
  \<open>@solana/web3.js\<close> and \<open>buffer\<close>, each with the outcome it has (a value, or what it
  throws). \<open>'pk\<close> is a PublicKey, \<open>'mkt\<close> a loaded Market, \<open>'ob\<close> an Orderbook and
  \<open>'tx\<close> what the transaction builder returns. \<open>loadBids\<close> and \<open>loadAsks\<close> may
  resolve to a falsy value (None).
\<close>

record ('pk, 'mkt, 'ob, 'tx) sdk =
  Market_load :: "jsval \<Rightarrow> 'pk \<Rightarrow> 'pk \<Rightarrow> exn + 'mkt"
  layout_offsetOf :: "'pk \<Rightarrow> string \<Rightarrow> nat"
  toBase58 :: "'pk \<Rightarrow> string"
  new_PublicKey :: "string \<Rightarrow> exn + 'pk"
  Buffer_from_base64 :: "string \<Rightarrow> nat list"
  rpcRequest :: "jsval \<Rightarrow> string \<Rightarrow> rpc_args \<Rightarrow> exn + rpc_response"
  loadBids :: "'mkt \<Rightarrow> jsval \<Rightarrow> exn + 'ob option"
  loadAsks :: "'mkt \<Rightarrow> jsval \<Rightarrow> exn + 'ob option"
  getL2 :: "'ob \<Rightarrow> nat \<Rightarrow> exn + l2level list"
  makePlaceOrderTransaction :: "'mkt \<Rightarrow> jsval \<Rightarrow> jsval \<Rightarrow> exn + 'tx"

section \<open>SerumMarket\<close>

text \<open>The instance: \<open>market\<close> is undefined (None) until \<open>initMarket\<close> has set it.\<close>

record ('pk, 'mkt) SerumMarket =
  connection :: jsval
  marketAddress :: 'pk
  dexProgramKey :: 'pk
  market :: "'mkt option"

definition new_SerumMarket :: "jsval \<Rightarrow> 'pk \<Rightarrow> 'pk \<Rightarrow> ('pk, 'mkt) SerumMarket" where
  "new_SerumMarket conn addr prog =
     \<lparr>connection = conn, marketAddress = addr, dexProgramKey = prog, market = None\<rparr>"

definition getMarket ::
  "('pk, 'mkt, 'ob, 'tx) sdk \<Rightarrow> ('pk, 'mkt) SerumMarket \<Rightarrow> exn + 'mkt" where
  "getMarket env this =
     Market_load env (connection this) (marketAddress this) (dexProgramKey this)"

definition initMarket ::
  "('pk, 'mkt, 'ob, 'tx) sdk \<Rightarrow> ('pk, 'mkt) SerumMarket \<Rightarrow> exn + ('pk, 'mkt) SerumMarket" where
  "initMarket env this =
     then_res (getMarket env this) (\<lambda>m. Inr (this\<lparr>market := Some m\<rparr>))"

subsection \<open>Market discovery\<close>

record 'pk account_info =
  ai_data :: "nat list"
  ai_executable :: bool
  ai_owner :: 'pk
  ai_lamports :: nat

record 'pk market_account =
  publicKey :: 'pk
  accountInfo :: "'pk account_info"

definition request_args ::
  "('pk, 'mkt, 'ob, 'tx) sdk \<Rightarrow> jsval \<Rightarrow> 'pk \<Rightarrow> 'pk \<Rightarrow> 'pk \<Rightarrow> rpc_args" where
  "request_args env conn baseMintAddress quoteMintAddress dexProgramId =
     \<lparr>programId = toBase58 env dexProgramId,
      commitment = get_prop conn ''commitment'',
      filters =
        [\<lparr>offset = layout_offsetOf env dexProgramId ''baseMint'',
          bytes = toBase58 env baseMintAddress\<rparr>,
         \<lparr>offset = layout_offsetOf env dexProgramId ''quoteMint'',
          bytes = toBase58 env quoteMintAddress\<rparr>],
      encoding = ''base64''\<rparr>"

text \<open>The callback of \<open>resp.result.map\<close>, for one entry of the response.\<close>

definition decode_entry ::
  "('pk, 'mkt, 'ob, 'tx) sdk \<Rightarrow> rpc_entry \<Rightarrow> exn + 'pk market_account" where
  "decode_entry env e =
     then_res (new_PublicKey env (pubkey e)) (\<lambda>pk.
       (case data (account e) of
          [] \<Rightarrow> Inl TypeError
        | d # _ \<Rightarrow>
            then_res (new_PublicKey env (owner (account e))) (\<lambda>ow.
              Inr \<lparr>publicKey = pk,
                   accountInfo =
                     \<lparr>ai_data = Buffer_from_base64 env d,
                      ai_executable = executable (account e),
                      ai_owner = ow,
                      ai_lamports = lamports (account e)\<rparr>\<rparr>)))"

fun map_entries ::
  "('pk, 'mkt, 'ob, 'tx) sdk \<Rightarrow> rpc_entry list \<Rightarrow> exn + 'pk market_account list" where
  "map_entries env [] = Inr []"
| "map_entries env (e # es) =
     then_res (decode_entry env e) (\<lambda>a.
       then_res (map_entries env es) (\<lambda>as. Inr (a # as)))"

definition getMarketByAssetKeys ::
  "('pk, 'mkt, 'ob, 'tx) sdk \<Rightarrow> jsval \<Rightarrow> 'pk \<Rightarrow> 'pk \<Rightarrow> 'pk
     \<Rightarrow> exn + 'pk market_account list" where
  "getMarketByAssetKeys env conn baseMintAddress quoteMintAddress dexProgramId =
     (if is_nullish conn then Inl TypeError
      else
        then_res
          (rpcRequest env conn ''getProgramAccounts''
             (request_args env conn baseMintAddress quoteMintAddress dexProgramId))
          (\<lambda>resp.
             (case error resp of
                Some err \<Rightarrow> Inl (Error (message err))
              | None \<Rightarrow> map_entries env (result resp))))"

definition findByAssets ::
  "('pk, 'mkt, 'ob, 'tx) sdk \<Rightarrow> jsval \<Rightarrow> 'pk \<Rightarrow> 'pk \<Rightarrow> 'pk
     \<Rightarrow> exn + ('pk, 'mkt) SerumMarket option" where
  "findByAssets env conn baseMintAddress quoteMintAddress dexProgramKey' =
     then_res
       (getMarketByAssetKeys env conn baseMintAddress quoteMintAddress dexProgramKey')
       (\<lambda>availableMarkets.
          (case availableMarkets of
             [] \<Rightarrow> Inr None
           | first # _ \<Rightarrow>
               then_res
                 (initMarket env (new_SerumMarket conn (publicKey first) dexProgramKey'))
                 (\<lambda>m. Inr (Some m))))"

subsection \<open>Order book and prices\<close>

record spread =
  bid :: "jsnum option"
  ask :: "jsnum option"

record level =
  price :: jsnum
  size_l :: jsnum

record orderbook =
  bids :: "level list"
  asks :: "level list"

text \<open>\<open>ob.getL2(depth)\<close> on what a load resolved to: a falsy receiver has no method.\<close>

definition call_getL2 ::
  "('pk, 'mkt, 'ob, 'tx) sdk \<Rightarrow> 'ob option \<Rightarrow> nat \<Rightarrow> exn + l2level list" where
  "call_getL2 env ob depth =
     (case ob of None \<Rightarrow> Inl TypeError | Some b \<Rightarrow> getL2 env b depth)"

text \<open>\<open>xs[0]\<close>: undefined (None) on an empty array.\<close>

definition index0 :: "'a list \<Rightarrow> 'a option" where
  "index0 xs = (case xs of [] \<Rightarrow> None | x # _ \<Rightarrow> Some x)"

text \<open>\<open>lvl[0]\<close> on a level that may be undefined: reading an index of undefined throws.\<close>

definition level_price :: "l2level option \<Rightarrow> exn + jsnum" where
  "level_price lvl = (case lvl of None \<Rightarrow> Inl TypeError | Some l \<Rightarrow> Inr (fst l))"

definition getBidAskSpread ::
  "('pk, 'mkt, 'ob, 'tx) sdk \<Rightarrow> ('pk, 'mkt) SerumMarket \<Rightarrow> exn + spread" where
  "getBidAskSpread env this =
     (case market this of
        None \<Rightarrow> Inr \<lparr>bid = None, ask = None\<rparr>
      | Some m \<Rightarrow>
          then_res (loadBids env m (connection this)) (\<lambda>bidOrderbook.
          then_res (loadAsks env m (connection this)) (\<lambda>askOrderbook.
          then_res (call_getL2 env bidOrderbook 1) (\<lambda>bl.
          then_res (call_getL2 env askOrderbook 1) (\<lambda>al.
          then_res (level_price (index0 bl)) (\<lambda>b.
          then_res (level_price (index0 al)) (\<lambda>a.
            Inr \<lparr>bid = Some b, ask = Some a\<rparr>)))))))"

text \<open>\<open>([price, size]) => ({ price, size })\<close>.\<close>

definition to_level :: "l2level \<Rightarrow> level" where
  "to_level l = \<lparr>price = fst l, size_l = fst (snd l)\<rparr>"

definition side_levels ::
  "('pk, 'mkt, 'ob, 'tx) sdk \<Rightarrow> 'ob option \<Rightarrow> nat \<Rightarrow> exn + level list" where
  "side_levels env ob depth =
     (case ob of
        None \<Rightarrow> Inr []
      | Some b \<Rightarrow> then_res (getL2 env b depth) (\<lambda>ls. Inr (map to_level ls)))"

text \<open>
  \<open>getOrderbook(depth = 20)\<close>: an omitted depth (None) is 20. A depth counts levels and
  is a natural number. The handler's \<open>console.error\<close> is not part of the returned value
  and is left out.
\<close>

definition depth_of :: "nat option \<Rightarrow> nat" where
  "depth_of depth_arg = (case depth_arg of None \<Rightarrow> 20 | Some d \<Rightarrow> d)"

definition getOrderbook ::
  "('pk, 'mkt, 'ob, 'tx) sdk \<Rightarrow> ('pk, 'mkt) SerumMarket \<Rightarrow> nat option \<Rightarrow> exn + orderbook" where
  "getOrderbook env this depth_arg =
     (let depth = depth_of depth_arg in
      try_catch
        (case market this of
           None \<Rightarrow> Inl TypeError
         | Some m \<Rightarrow>
             then_res
               (promise_all2 (loadBids env m (connection this))
                  (loadAsks env m (connection this)))
               (\<lambda>(bidOrderbook, askOrderbook).
                  then_res (side_levels env bidOrderbook depth) (\<lambda>bs.
                  then_res (side_levels env askOrderbook depth) (\<lambda>as.
                    Inr \<lparr>bids = bs, asks = as\<rparr>))))
        (\<lambda>err. Inr \<lparr>bids = [], asks = []\<rparr>))"

text \<open>A bid or ask in arithmetic: null converts to 0.\<close>

definition to_number :: "jsnum option \<Rightarrow> jsnum" where
  "to_number v = (case v of None \<Rightarrow> Fin 0 | Some n \<Rightarrow> n)"

definition getPrice ::
  "('pk, 'mkt, 'ob, 'tx) sdk \<Rightarrow> ('pk, 'mkt) SerumMarket \<Rightarrow> exn + jsnum" where
  "getPrice env this =
     then_res (getBidAskSpread env this) (\<lambda>s.
       Inr (js_add
              (js_div (js_sub (to_number (ask s)) (to_number (bid s))) (Fin 2))
              (to_number (bid s))))"

subsection \<open>Order construction\<close>

text \<open>
  The parameter is one object, destructured with the default \<open>opts = {}\<close> (used when
  the property is undefined); \<open>opts\<close> is destructured in the body. Destructuring null
  or undefined throws.
\<close>

definition opts_of :: "jsval \<Rightarrow> jsval" where
  "opts_of arg = (if get_prop arg ''opts'' = JUndefined then JObj [] else get_prop arg ''opts'')"

definition order_params :: "jsval \<Rightarrow> jsval" where
  "order_params arg =
     JObj [(''owner'', get_prop arg ''owner''),
           (''payer'', get_prop arg ''payer''),
           (''side'', get_prop arg ''side''),
           (''price'', get_prop arg ''price''),
           (''size'', get_prop arg ''size''),
           (''orderType'', get_prop arg ''orderType''),
           (''clientId'', get_prop (opts_of arg) ''clientId''),
           (''openOrdersAddressKey'', get_prop (opts_of arg) ''openOrdersAddressKey''),
           (''openOrdersAccount'', get_prop (opts_of arg) ''openOrdersAccount''),
           (''feeDiscountPubkey'', get_prop (opts_of arg) ''feeDiscountPubkey'')]"

definition createPlaceOrderTx ::
  "('pk, 'mkt, 'ob, 'tx) sdk \<Rightarrow> ('pk, 'mkt) SerumMarket \<Rightarrow> jsval \<Rightarrow> exn + 'tx" where
  "createPlaceOrderTx env this arg =
     (if is_nullish arg then Inl TypeError
      else if is_nullish (opts_of arg) then Inl TypeError
      else
        (case market this of
           None \<Rightarrow> Inl TypeError
         | Some m \<Rightarrow>
             makePlaceOrderTransaction env m (get_prop arg ''connection'') (order_params arg)))"

section \<open>A test double for the SDK\<close>

text \<open>
  A mocked SDK and node, on which the functions above can be run: public keys and market
  handles are strings, an order book is the list of its levels (best first) and
  \<open>getL2\<close> takes the first \<open>depth\<close> of them. The market \<open>''broken''\<close> fails to
  load its bids, the market \<open>''no_bids''\<close> has an empty bid side, the address
  \<open>''unlisted''\<close> cannot be loaded as a market, the node answers a query for the base
  mint \<open>''down''\<close> with an error and knows no market for the base mint
  \<open>''nobody''\<close>. The transaction builder returns what it was called with. (The mocked
  \<open>Buffer.from\<close> returns the character codes, not a base64 decoding.)
\<close>

definition mock_sdk :: "(string, string, l2level list, jsval) sdk" where
  "mock_sdk =
     \<lparr>Market_load = (\<lambda>conn addr prog.
        if addr = ''unlisted'' then Inl (Error ''market not found'') else Inr addr),
      layout_offsetOf = (\<lambda>prog field. if field = ''baseMint'' then 53 else 85),
      toBase58 = (\<lambda>pk. pk),
      new_PublicKey = (\<lambda>s. Inr s),
      Buffer_from_base64 = (\<lambda>s. map of_char s),
      rpcRequest = (\<lambda>conn method args.
        if bytes (hd (filters args)) = ''down''
        then Inr \<lparr>error = Some \<lparr>message = ''x''\<rparr>, result = []\<rparr>
        else if bytes (hd (filters args)) = ''nobody''
        then Inr \<lparr>error = None, result = []\<rparr>
        else Inr \<lparr>error = None,
                  result =
                    [\<lparr>pubkey = bytes (hd (filters args)),
                      account = \<lparr>data = [''AA=='', ''base64''], executable = False,
                                 owner = programId args, lamports = 1\<rparr>\<rparr>,
                     \<lparr>pubkey = ''second'',
                      account = \<lparr>data = [''AA=='', ''base64''], executable = False,
                                 owner = programId args, lamports = 2\<rparr>\<rparr>]\<rparr>),
      loadBids = (\<lambda>m conn.
        if m = ''broken'' then Inl (Thrown (JStr ''boom''))
        else if m = ''no_bids'' then Inr (Some [])
        else Inr (Some [(Fin 10, Fin 3, 10, 3), (Fin 9, Fin 1, 9, 1)])),
      loadAsks = (\<lambda>m conn. Inr (Some [(Fin 12, Fin 4, 12, 4), (Fin 13, Fin 2, 13, 2)])),
      getL2 = (\<lambda>ob depth. Inr (take depth ob)),
      makePlaceOrderTransaction = (\<lambda>m conn params.
        Inr (JObj [(''connection'', conn), (''params'', params)]))\<rparr>"

definition mock_connection :: jsval where
  "mock_connection = JObj [(''commitment'', JStr ''recent'')]"

definition mock_client :: "string option \<Rightarrow> (string, string) SerumMarket" where
  "mock_client m =
     \<lparr>connection = mock_connection, marketAddress = ''mkt'', dexProgramKey = ''dex'',
      market = m\<rparr>"

section \<open>Properties of the order-book queries\<close>

text \<open>
  Claim C1. On an initialized client (\<open>market\<close> is set), whenever a load of either
  side or a level extraction of either side throws, with whatever exception \<open>e\<close>,
  \<open>getOrderbook\<close> does not reject: it resolves to exactly
  \<open>{bids: [], asks: []}\<close>. The depth may be given or left to its default.
\<close>

theorem getOrderbook_swallows_failures:
  assumes init: "market this = Some m"
    and fails:
      "loadBids env m (connection this) = Inl e
       \<or> loadAsks env m (connection this) = Inl e
       \<or> (\<exists>b. loadBids env m (connection this) = Inr (Some b)
               \<and> getL2 env b (depth_of depth_arg) = Inl e)
       \<or> (\<exists>a. loadAsks env m (connection this) = Inr (Some a)
               \<and> getL2 env a (depth_of depth_arg) = Inl e)"
  shows "getOrderbook env this depth_arg = Inr \<lparr>bids = [], asks = []\<rparr>"
proof (cases "loadBids env m (connection this)")
  case (Inl e1)
  with init show ?thesis
    by (simp add: getOrderbook_def try_catch_def promise_all2_def then_res_def)
next
  case bids_loaded: (Inr bo)
  show ?thesis
  proof (cases "loadAsks env m (connection this)")
    case (Inl e2)
    with init bids_loaded show ?thesis
      by (simp add: getOrderbook_def try_catch_def promise_all2_def then_res_def)
  next
    case asks_loaded: (Inr ao)
    from fails bids_loaded asks_loaded
    have "(\<exists>b. bo = Some b \<and> getL2 env b (depth_of depth_arg) = Inl e)
          \<or> (\<exists>a. ao = Some a \<and> getL2 env a (depth_of depth_arg) = Inl e)"
      by auto
    then have "side_levels env bo (depth_of depth_arg) = Inl e
               \<or> side_levels env ao (depth_of depth_arg) = Inl e"
      by (auto simp: side_levels_def then_res_def)
    with init bids_loaded asks_loaded show ?thesis
      by (auto simp: getOrderbook_def Let_def try_catch_def promise_all2_def then_res_def
               split: sum.splits)
  qed
qed

theorem getOrderbook_swallows_failures_witness:
  "market (mock_client (Some ''broken'')) = Some ''broken''
   \<and> loadBids mock_sdk ''broken'' (connection (mock_client (Some ''broken'')))
       = Inl (Thrown (JStr ''boom''))
   \<and> getOrderbook mock_sdk (mock_client (Some ''broken'')) (Some 5)
       = Inr \<lparr>bids = [], asks = []\<rparr>"
proof -
  have init: "market (mock_client (Some ''broken'')) = Some ''broken''"
    by (simp add: mock_client_def)
  have thrown: "loadBids mock_sdk ''broken'' (connection (mock_client (Some ''broken'')))
                  = Inl (Thrown (JStr ''boom''))"
    by (simp add: mock_sdk_def)
  from getOrderbook_swallows_failures [OF init disjI1, OF thrown] init thrown
  show ?thesis by simp
qed

text \<open>
  Claim C5. A client on which \<open>initMarket\<close> has not completed has no market handle.
  On it \<open>getBidAskSpread\<close> resolves to \<open>{bid: null, ask: null}\<close> and
  \<open>getOrderbook\<close>, for every depth, resolves to \<open>{bids: [], asks: []}\<close> (the
  TypeError of calling a method of undefined is caught); neither rejects.
\<close>

theorem not_ready_sentinels:
  assumes "market this = None"
  shows "getBidAskSpread env this = Inr \<lparr>bid = None, ask = None\<rparr>
         \<and> getOrderbook env this depth_arg = Inr \<lparr>bids = [], asks = []\<rparr>"
  using assms by (simp add: getBidAskSpread_def getOrderbook_def try_catch_def)

theorem not_ready_sentinels_witness:
  "market (mock_client None) = None
   \<and> getBidAskSpread mock_sdk (mock_client None) = Inr \<lparr>bid = None, ask = None\<rparr>
   \<and> getOrderbook mock_sdk (mock_client None) (Some 3) = Inr \<lparr>bids = [], asks = []\<rparr>"
proof -
  have uninit: "market (mock_client None) = None"
    by (simp add: mock_client_def)
  from not_ready_sentinels [OF uninit, of mock_sdk "Some 3"] uninit
  show ?thesis by simp
qed

text \<open>One side of the snapshot has as many levels as \<open>getL2\<close> returned, or none.\<close>

lemma side_levels_length:
  assumes "\<forall>ob ls. getL2 env ob depth = Inr ls \<longrightarrow> length ls \<le> depth"
    and "side_levels env bo depth = Inr ls"
  shows "length ls \<le> depth"
proof (cases bo)
  case None
  with assms(2) show ?thesis by (simp add: side_levels_def)
next
  case (Some b)
  with assms(2) obtain raw where "getL2 env b depth = Inr raw" and "ls = map to_level raw"
    by (auto simp: side_levels_def then_res_def split: sum.splits)
  with assms(1) show ?thesis by auto
qed

text \<open>
  Claim C9. If the level extraction of the SDK returns at most the requested number of
  levels, then \<open>getOrderbook(d)\<close> always resolves, to a snapshot with at most \<open>d\<close>
  levels of bids and at most \<open>d\<close> levels of asks, for every depth \<open>d\<close> the caller
  passes and every client, initialized or not.
\<close>

theorem getOrderbook_depth_bound:
  assumes bounded: "\<forall>ob ls. getL2 env ob d = Inr ls \<longrightarrow> length ls \<le> d"
  shows "\<exists>r. getOrderbook env this (Some d) = Inr r
             \<and> length (bids r) \<le> d \<and> length (asks r) \<le> d"
proof (cases "market this")
  case None
  then show ?thesis by (simp add: getOrderbook_def try_catch_def)
next
  case (Some m)
  have depth: "depth_of (Some d) = d"
    by (simp add: depth_of_def)
  show ?thesis
  proof (cases "promise_all2 (loadBids env m (connection this)) (loadAsks env m (connection this))")
    case (Inl e)
    with Some show ?thesis by (simp add: getOrderbook_def try_catch_def then_res_def)
  next
    case (Inr both)
    obtain bo ao where both: "both = (bo, ao)" by (cases both)
    show ?thesis
    proof (cases "side_levels env bo d")
      case (Inl e)
      with Some Inr both depth show ?thesis
        by (simp add: getOrderbook_def try_catch_def then_res_def)
    next
      case bs: (Inr bs)
      show ?thesis
      proof (cases "side_levels env ao d")
        case (Inl e)
        with Some Inr both bs depth show ?thesis
          by (simp add: getOrderbook_def try_catch_def then_res_def)
      next
        case as: (Inr as)
        from side_levels_length [OF bounded bs] side_levels_length [OF bounded as]
          Some Inr both bs as depth
        show ?thesis
          by (simp add: getOrderbook_def try_catch_def then_res_def)
      qed
    qed
  qed
qed

theorem getOrderbook_depth_bound_witness:
  "getOrderbook mock_sdk (mock_client (Some ''m'')) (Some 1)
       = Inr \<lparr>bids = [\<lparr>price = Fin 10, size_l = Fin 3\<rparr>],
              asks = [\<lparr>price = Fin 12, size_l = Fin 4\<rparr>]\<rparr>
   \<and> (\<exists>r. getOrderbook mock_sdk (mock_client (Some ''m'')) (Some 1) = Inr r
          \<and> length (bids r) \<le> 1 \<and> length (asks r) \<le> 1)"
proof -
  have bounded: "\<forall>ob ls. getL2 mock_sdk ob 1 = Inr ls \<longrightarrow> length ls \<le> 1"
    by (auto simp: mock_sdk_def)
  have run: "getOrderbook mock_sdk (mock_client (Some ''m'')) (Some 1)
       = Inr \<lparr>bids = [\<lparr>price = Fin 10, size_l = Fin 3\<rparr>],
              asks = [\<lparr>price = Fin 12, size_l = Fin 4\<rparr>]\<rparr>"
    by (simp add: getOrderbook_def depth_of_def try_catch_def then_res_def promise_all2_def
          side_levels_def to_level_def mock_sdk_def mock_client_def)
  from getOrderbook_depth_bound [OF bounded, of "mock_client (Some ''m'')"] run
  show ?thesis by simp
qed

text \<open>
  Claim C2. The claim is that \<open>getBidAskSpread\<close> returns null for an empty side and
  does not fail. On the mocked market whose bid side is empty (its load succeeds and
  \<open>getL2(1)\<close> returns the empty array) the code rejects with a TypeError:
  \<open>bidOrderbook.getL2(1)[0]\<close> is undefined and \<open>highestbid[0]\<close> reads an index
  of undefined.
\<close>

theorem getBidAskSpread_empty_bids:
  "market (mock_client (Some ''no_bids'')) = Some ''no_bids''
   \<and> loadBids mock_sdk ''no_bids'' mock_connection = Inr (Some [])
   \<and> getL2 mock_sdk [] 1 = Inr []
   \<and> getBidAskSpread mock_sdk (mock_client (Some ''no_bids'')) = Inl TypeError"
  by (simp add: getBidAskSpread_def then_res_def call_getL2_def index0_def level_price_def
        mock_sdk_def mock_client_def)

section \<open>Properties of the number arithmetic\<close>

text \<open>An integer is its own rounding.\<close>

lemma rhe_of_int: "round_half_even (of_int z) = z"
  by (simp add: round_half_even_def)

text \<open>
  A value of at most 53 significant bits, in the range of the doubles, is representable:
  rounding leaves it as it is.
\<close>

lemma round_magnitude_exact:
  assumes pos: "0 < n" and small: "n < 2 ^ 53" and in_range: "bitlen n + int j \<le> 2098"
  shows "round_magnitude (of_int (n * 2 ^ j) / 2 ^ 1074) = Some (of_int (n * 2 ^ j) / 2 ^ 1074)"
proof -
  define k where "k = nat (bitlen (n * 2 ^ j) - 53)"
  have len: "bitlen (n * 2 ^ j) = bitlen n + int j"
    using pos by simp
  have "bitlen n \<le> 53"
    using small by (simp add: bitlen_le_iff_power)
  with len have kj: "k \<le> j"
    by (simp add: k_def)
  have pow_split: "(2::int) ^ j = 2 ^ (j - k) * 2 ^ k"
    using kj by (simp flip: power_add)
  have scaled: "real_of_int (n * 2 ^ j) / 2 ^ k = of_int (n * 2 ^ (j - k))"
    by (subst pow_split) simp
  have restored: "round_half_even (real_of_int (n * 2 ^ j) / 2 ^ k) * 2 ^ k = n * 2 ^ j"
    unfolding scaled rhe_of_int using pow_split by simp
  from pos have "n * 2 ^ j < 2 ^ nat (bitlen (n * 2 ^ j))"
    using bitlen_bounds [of "n * 2 ^ j"] by simp
  also have "\<dots> \<le> 2 ^ 2098"
    using in_range len by (intro power_increasing) auto
  finally have fits: "\<not> 2 ^ 2098 \<le> n * 2 ^ j"
    by simp
  have "real_of_int (n * 2 ^ j) / 2 ^ 1074 * 2 ^ 1074 = of_int (n * 2 ^ j)"
    by simp
  then have floor_eq: "\<lfloor>real_of_int (n * 2 ^ j) / 2 ^ 1074 * 2 ^ 1074\<rfloor> = n * 2 ^ j"
    by (simp only: floor_of_int)
  show ?thesis
    unfolding round_magnitude_def Let_def floor_eq
    using restored fits by (simp add: k_def)
qed

lemma round_double_small_int:
  assumes "0 < n" and "n < 2 ^ 53"
  shows "round_double (of_int n) = Fin (of_int n)"
proof -
  from assms have "bitlen n + int 1074 \<le> 2098"
    by (simp add: bitlen_le_iff_power)
  from round_magnitude_exact [OF assms this] assms(1) show ?thesis
    by (simp add: round_double_def)
qed

text \<open>
  A value of \<open>53 + d\<close> significant bits loses its \<open>d\<close> low bits, rounded half to
  even, and overflows when the result reaches \<open>2 ^ 1024\<close>.
\<close>

lemma round_magnitude_cut:
  assumes len: "bitlen N = 53 + int d"
  shows "round_magnitude (of_int (N * 2 ^ j) / 2 ^ 1074)
           = (if 2 ^ 2098 \<le> round_half_even (of_int N / 2 ^ d) * 2 ^ (d + j) then None
              else Some (of_int (round_half_even (of_int N / 2 ^ d) * 2 ^ (d + j)) / 2 ^ 1074))"
proof -
  from len have pos: "0 < N"
    using bitlen_eq_zero_iff [of N] by (cases "0 < N") auto
  have "real_of_int (N * 2 ^ j) / 2 ^ 1074 * 2 ^ 1074 = of_int (N * 2 ^ j)"
    by simp
  then have floor_eq: "\<lfloor>real_of_int (N * 2 ^ j) / 2 ^ 1074 * 2 ^ 1074\<rfloor> = N * 2 ^ j"
    by (simp only: floor_of_int)
  have cut: "nat (bitlen (N * 2 ^ j) - 53) = d + j"
    using pos len by simp
  have scaled: "real_of_int (N * 2 ^ j) / 2 ^ 1074 * 2 ^ 1074 / 2 ^ (d + j) = of_int N / 2 ^ d"
    by (simp add: power_add)
  show ?thesis
    unfolding round_magnitude_def Let_def floor_eq cut scaled
    by simp
qed

text \<open>
  The midpoint expression of \<open>getPrice\<close> on the doubles nearest to 0.1 and 0.2: the
  exact result has 54 bits and is rounded, to the double printed as
  0.15000000000000002.
\<close>

lemma rounding_example:
  "js_add (js_div (js_sub (Fin (3602879701896397 / 2 ^ 54)) (Fin (3602879701896397 / 2 ^ 55)))
             (Fin 2))
     (Fin (3602879701896397 / 2 ^ 55))
   = Fin (5404319552844596 / 2 ^ 55)"
proof -
  have len53: "bitlen 3602879701896397 = 52"
    by (rule antisym) (simp_all add: bitlen_le_iff_power bitlen_ge_iff_power)
  have tenth: "round_double (3602879701896397 / 2 ^ 55) = Fin (3602879701896397 / 2 ^ 55)"
    using round_magnitude_exact [of 3602879701896397 1019] len53
    by (simp add: round_double_def)
  have twentieth: "round_double (3602879701896397 / 2 ^ 56) = Fin (3602879701896397 / 2 ^ 56)"
    using round_magnitude_exact [of 3602879701896397 1018] len53
    by (simp add: round_double_def)
  have len54: "bitlen 10808639105689191 = 53 + int 1"
    by (rule antisym) (simp_all add: bitlen_le_iff_power bitlen_ge_iff_power)
  have half_even: "round_half_even (of_int 10808639105689191 / 2 ^ 1) = 5404319552844596"
    by (simp add: round_half_even_def)
  have sum: "round_double (10808639105689191 / 2 ^ 56) = Fin (5404319552844596 / 2 ^ 55)"
    using round_magnitude_cut [of 10808639105689191 1 1018] len54 half_even
    by (simp add: round_double_def)
  show ?thesis
    using tenth twentieth sum
    by (simp add: js_sub_def js_add_def js_div_def)
qed

text \<open>A difference beyond the largest double is Infinity.\<close>

lemma overflow_example:
  "js_sub (Fin (2 ^ 1023)) (Fin (- (2 ^ 1023))) = PInf"
proof -
  have len54: "bitlen (2 ^ 53) = 53 + int 1"
    by (rule antisym) (simp_all add: bitlen_le_iff_power bitlen_ge_iff_power)
  have half_even: "round_half_even (of_int (2 ^ 53) / 2 ^ 1) = 2 ^ 52"
    by (simp add: round_half_even_def)
  have "round_magnitude (of_int (2 ^ 53 * 2 ^ 2045) / 2 ^ 1074) = None"
    unfolding round_magnitude_cut [OF len54] half_even by simp
  then have "round_double (2 ^ 1024) = PInf"
    by (simp add: round_double_def)
  then show ?thesis
    by (simp add: js_sub_def js_add_def)
qed

text \<open>
  Addition of JavaScript numbers is commutative, also on the zeros, the infinities and
  NaN.
\<close>

lemma js_add_commute: "js_add x y = js_add y x"
  by (auto simp: js_add_def add.commute conj_commute)

text \<open>\<open>10 + (12 - 10) / 2\<close> is 11: every intermediate result is a small integer.\<close>

lemma midpoint_of_10_and_12:
  "js_add (Fin 10) (js_div (js_sub (Fin 12) (Fin 10)) (Fin 2)) = Fin 11"
  using round_double_small_int [of 2] round_double_small_int [of 1] round_double_small_int [of 11]
  by (simp add: js_sub_def js_add_def js_div_def)

section \<open>Properties of the price queries\<close>

text \<open>
  On an initialized client a spread, when the query resolves, has a number on both sides:
  null is returned on the not-ready path only.
\<close>

lemma spread_of_initialized:
  assumes "market this = Some m" and "getBidAskSpread env this = Inr s"
  shows "\<exists>b a. s = \<lparr>bid = Some b, ask = Some a\<rparr>"
  using assms
  by (auto simp: getBidAskSpread_def then_res_def split: sum.splits)

text \<open>
  Claim C3, as stated, fails: on the uninitialized mock client the spread is
  \<open>{bid: null, ask: null}\<close> and \<open>getPrice\<close> resolves to the number 0, which is not
  NaN, because null converts to 0 in \<open>(ask - bid) / 2 + bid\<close>.
\<close>

theorem getPrice_not_ready_counterexample:
  "getBidAskSpread mock_sdk (mock_client None) = Inr \<lparr>bid = None, ask = None\<rparr>
   \<and> getPrice mock_sdk (mock_client None) = Inr (Fin 0)
   \<and> getPrice mock_sdk (mock_client None) \<noteq> Inr NaN"
  by (simp add: getPrice_def getBidAskSpread_def then_res_def to_number_def js_sub_def
        js_add_def js_div_def signed_zero_def mock_client_def)

text \<open>
  Claim C3, amended. For every client for which \<open>getBidAskSpread\<close> yields a null bid or
  a null ask (this happens on an uninitialized client only, and then both sides are
  null), \<open>getPrice\<close> resolves to the number 0.
\<close>

theorem getPrice_null_side_is_zero:
  assumes spread: "getBidAskSpread env this = Inr s"
    and null_side: "bid s = None \<or> ask s = None"
  shows "getPrice env this = Inr (Fin 0)"
proof (cases "market this")
  case None
  with spread have "s = \<lparr>bid = None, ask = None\<rparr>"
    by (simp add: getBidAskSpread_def)
  with spread show ?thesis
    by (simp add: getPrice_def then_res_def to_number_def js_sub_def js_add_def js_div_def
          signed_zero_def)
next
  case (Some m)
  from spread_of_initialized [OF Some spread] null_side show ?thesis by auto
qed

theorem getPrice_null_side_is_zero_witness:
  "getBidAskSpread mock_sdk (mock_client None) = Inr \<lparr>bid = None, ask = None\<rparr>
   \<and> getPrice mock_sdk (mock_client None) = Inr (Fin 0)"
proof -
  have spread: "getBidAskSpread mock_sdk (mock_client None) = Inr \<lparr>bid = None, ask = None\<rparr>"
    by (simp add: getBidAskSpread_def mock_client_def)
  have null_side: "bid \<lparr>bid = None, ask = None\<rparr> = None \<or> ask \<lparr>bid = None, ask = None\<rparr> = None"
    by simp
  from getPrice_null_side_is_zero [OF spread null_side] spread show ?thesis by simp
qed

text \<open>
  Claim C4. When the spread query yields numbers \<open>bid\<close> and \<open>ask\<close> (which makes the
  client an initialized one), \<open>getPrice\<close> resolves to \<open>bid + (ask - bid) / 2\<close>,
  evaluated in JavaScript's double arithmetic like every expression of the program (each
  operation rounds, see \<open>rounding_example\<close>), and to 11 for bid 10 and ask 12.
\<close>

theorem getPrice_midpoint:
  assumes spread: "getBidAskSpread env this = Inr \<lparr>bid = Some b, ask = Some a\<rparr>"
  shows "getPrice env this = Inr (js_add b (js_div (js_sub a b) (Fin 2)))
         \<and> (b = Fin 10 \<and> a = Fin 12 \<longrightarrow> getPrice env this = Inr (Fin 11))"
proof -
  have code: "getPrice env this = Inr (js_add (js_div (js_sub a b) (Fin 2)) b)"
    using spread by (simp add: getPrice_def then_res_def to_number_def)
  have general: "getPrice env this = Inr (js_add b (js_div (js_sub a b) (Fin 2)))"
    using code by (simp add: js_add_commute)
  have example: "getPrice env this = Inr (Fin 11)" if "b = Fin 10" "a = Fin 12"
    using general that by (simp only: midpoint_of_10_and_12)
  from general example show ?thesis by blast
qed

theorem getPrice_midpoint_witness:
  "getBidAskSpread mock_sdk (mock_client (Some ''m'')) = Inr \<lparr>bid = Some (Fin 10), ask = Some (Fin 12)\<rparr>
   \<and> getPrice mock_sdk (mock_client (Some ''m'')) = Inr (Fin 11)"
proof -
  have spread: "getBidAskSpread mock_sdk (mock_client (Some ''m''))
                  = Inr \<lparr>bid = Some (Fin 10), ask = Some (Fin 12)\<rparr>"
    by (simp add: getBidAskSpread_def then_res_def call_getL2_def index0_def level_price_def
          mock_sdk_def mock_client_def)
  from getPrice_midpoint [OF spread, THEN conjunct2]
  have "getPrice mock_sdk (mock_client (Some ''m'')) = Inr (Fin 11)"
    by simp
  with spread show ?thesis by simp
qed

section \<open>Properties of market discovery\<close>

text \<open>
  Claim C6. Whenever the node's response to the \<open>getProgramAccounts\<close> request carries
  an error, \<open>getMarketByAssetKeys\<close> rejects with an \<open>Error\<close> whose message is the
  node's message, unchanged. (A request is issued on a connection object, so the
  connection is not null or undefined.)
\<close>

theorem getMarketByAssetKeys_remote_error:
  assumes conn: "\<not> is_nullish conn"
    and response: "rpcRequest env conn ''getProgramAccounts''
                     (request_args env conn baseMintAddress quoteMintAddress dexProgramId)
                   = Inr resp"
    and failed: "error resp = Some err"
  shows "getMarketByAssetKeys env conn baseMintAddress quoteMintAddress dexProgramId
           = Inl (Error (message err))"
  using assms by (simp add: getMarketByAssetKeys_def then_res_def)

theorem getMarketByAssetKeys_remote_error_witness:
  "rpcRequest mock_sdk mock_connection ''getProgramAccounts''
     (request_args mock_sdk mock_connection ''down'' ''usdc'' ''dex'')
     = Inr \<lparr>error = Some \<lparr>message = ''x''\<rparr>, result = []\<rparr>
   \<and> getMarketByAssetKeys mock_sdk mock_connection ''down'' ''usdc'' ''dex'' = Inl (Error ''x'')"
proof -
  have conn: "\<not> is_nullish mock_connection"
    by (simp add: is_nullish_def mock_connection_def)
  have response: "rpcRequest mock_sdk mock_connection ''getProgramAccounts''
     (request_args mock_sdk mock_connection ''down'' ''usdc'' ''dex'')
     = Inr \<lparr>error = Some \<lparr>message = ''x''\<rparr>, result = []\<rparr>"
    by (simp add: mock_sdk_def request_args_def)
  have failed: "error \<lparr>error = Some \<lparr>message = ''x''\<rparr>, result = []\<rparr> = Some \<lparr>message = ''x''\<rparr>"
    by simp
  from getMarketByAssetKeys_remote_error [OF conn response failed] response
  show ?thesis by simp
qed

text \<open>
  Claim C7, as stated, fails: on the mocked node the account query for the base mint
  \<open>''unlisted''\<close> returns two matches, the market at the first match's address cannot
  be loaded, and \<open>findByAssets\<close> rejects with the load's error instead of returning a
  client.
\<close>

theorem findByAssets_load_failure_counterexample:
  "getMarketByAssetKeys mock_sdk mock_connection ''unlisted'' ''usdc'' ''dex''
     = Inr [\<lparr>publicKey = ''unlisted'',
             accountInfo = \<lparr>ai_data = [65, 65, 61, 61], ai_executable = False,
                            ai_owner = ''dex'', ai_lamports = 1\<rparr>\<rparr>,
            \<lparr>publicKey = ''second'',
             accountInfo = \<lparr>ai_data = [65, 65, 61, 61], ai_executable = False,
                            ai_owner = ''dex'', ai_lamports = 2\<rparr>\<rparr>]
   \<and> findByAssets mock_sdk mock_connection ''unlisted'' ''usdc'' ''dex''
       = Inl (Error ''market not found'')"
  by (simp add: findByAssets_def getMarketByAssetKeys_def request_args_def decode_entry_def
        initMarket_def getMarket_def new_SerumMarket_def then_res_def is_nullish_def
        mock_sdk_def mock_connection_def)

text \<open>
  Claim C7, amended. Whenever the account query returns: with zero matches
  \<open>findByAssets\<close> resolves to null; with one or more matches it constructs a client
  for the first match's public key and initializes it, and resolves to that client
  (connection and program id as given, market address the first match's public key, market
  handle the loaded market) when \<open>Market.load\<close> succeeds, and rejects with the load's
  error when it fails.
\<close>

theorem findByAssets_first_match:
  assumes query: "getMarketByAssetKeys env conn baseMintAddress quoteMintAddress dexProgramKey'
                    = Inr availableMarkets"
  shows "(availableMarkets = [] \<longrightarrow>
            findByAssets env conn baseMintAddress quoteMintAddress dexProgramKey' = Inr None)
         \<and> (\<forall>first rest m.
               availableMarkets = first # rest
               \<and> Market_load env conn (publicKey first) dexProgramKey' = Inr m \<longrightarrow>
               findByAssets env conn baseMintAddress quoteMintAddress dexProgramKey'
                 = Inr (Some \<lparr>connection = conn, marketAddress = publicKey first,
                              dexProgramKey = dexProgramKey', market = Some m\<rparr>))
         \<and> (\<forall>first rest e.
               availableMarkets = first # rest
               \<and> Market_load env conn (publicKey first) dexProgramKey' = Inl e \<longrightarrow>
               findByAssets env conn baseMintAddress quoteMintAddress dexProgramKey' = Inl e)"
  using query
  by (simp add: findByAssets_def initMarket_def getMarket_def new_SerumMarket_def then_res_def)

theorem findByAssets_first_match_witness:
  "findByAssets mock_sdk mock_connection ''nobody'' ''usdc'' ''dex'' = Inr None
   \<and> findByAssets mock_sdk mock_connection ''sol'' ''usdc'' ''dex''
       = Inr (Some \<lparr>connection = mock_connection, marketAddress = ''sol'',
                    dexProgramKey = ''dex'', market = Some ''sol''\<rparr>)
   \<and> findByAssets mock_sdk mock_connection ''unlisted'' ''usdc'' ''dex''
       = Inl (Error ''market not found'')"
proof -
  have conn: "\<not> is_nullish mock_connection"
    by (simp add: is_nullish_def mock_connection_def)
  have none: "getMarketByAssetKeys mock_sdk mock_connection ''nobody'' ''usdc'' ''dex'' = Inr []"
    by (simp add: getMarketByAssetKeys_def request_args_def then_res_def conn mock_sdk_def)
  have two: "getMarketByAssetKeys mock_sdk mock_connection b ''usdc'' ''dex''
     = Inr [\<lparr>publicKey = b,
             accountInfo = \<lparr>ai_data = [65, 65, 61, 61], ai_executable = False,
                            ai_owner = ''dex'', ai_lamports = 1\<rparr>\<rparr>,
            \<lparr>publicKey = ''second'',
             accountInfo = \<lparr>ai_data = [65, 65, 61, 61], ai_executable = False,
                            ai_owner = ''dex'', ai_lamports = 2\<rparr>\<rparr>]"
    if "b \<noteq> ''down''" "b \<noteq> ''nobody''" for b
    using that
    by (simp add: getMarketByAssetKeys_def request_args_def decode_entry_def then_res_def conn
          mock_sdk_def)
  have sol: "Market_load mock_sdk mock_connection ''sol'' ''dex'' = Inr ''sol''"
    by (simp add: mock_sdk_def)
  have unlisted: "Market_load mock_sdk mock_connection ''unlisted'' ''dex''
                    = Inl (Error ''market not found'')"
    by (simp add: mock_sdk_def)
  from findByAssets_first_match [OF none]
  have r1: "findByAssets mock_sdk mock_connection ''nobody'' ''usdc'' ''dex'' = Inr None"
    by simp
  from findByAssets_first_match [OF two [of "''sol''"]] sol
  have r2: "findByAssets mock_sdk mock_connection ''sol'' ''usdc'' ''dex''
       = Inr (Some \<lparr>connection = mock_connection, marketAddress = ''sol'',
                    dexProgramKey = ''dex'', market = Some ''sol''\<rparr>)"
    by simp
  from findByAssets_first_match [OF two [of "''unlisted''"]] unlisted
  have r3: "findByAssets mock_sdk mock_connection ''unlisted'' ''usdc'' ''dex''
       = Inl (Error ''market not found'')"
    by simp
  from r1 r2 r3 show ?thesis by simp
qed

section \<open>Properties of order construction\<close>

text \<open>
  Claim C8. On a client with a market handle, for all values of connection, owner, payer,
  side, price, size, orderType and of the four fields of the options bundle,
  \<open>createPlaceOrderTx\<close> calls the transaction builder of the market with these ten
  order values unchanged (and the connection of the argument), and its outcome is the
  builder's outcome unchanged.
\<close>

theorem createPlaceOrderTx_forwards:
  assumes init: "market this = Some m"
  shows "createPlaceOrderTx env this
           (JObj [(''connection'', v_connection), (''owner'', v_owner), (''payer'', v_payer),
                  (''side'', v_side), (''price'', v_price), (''size'', v_size),
                  (''orderType'', v_orderType),
                  (''opts'', JObj [(''clientId'', v_clientId),
                                   (''openOrdersAddressKey'', v_openOrdersAddressKey),
                                   (''openOrdersAccount'', v_openOrdersAccount),
                                   (''feeDiscountPubkey'', v_feeDiscountPubkey)])])
         = makePlaceOrderTransaction env m v_connection
             (JObj [(''owner'', v_owner), (''payer'', v_payer), (''side'', v_side),
                    (''price'', v_price), (''size'', v_size), (''orderType'', v_orderType),
                    (''clientId'', v_clientId),
                    (''openOrdersAddressKey'', v_openOrdersAddressKey),
                    (''openOrdersAccount'', v_openOrdersAccount),
                    (''feeDiscountPubkey'', v_feeDiscountPubkey)])"
  using init
  by (simp add: createPlaceOrderTx_def order_params_def opts_of_def is_nullish_def)

theorem createPlaceOrderTx_forwards_witness:
  "createPlaceOrderTx mock_sdk (mock_client (Some ''m''))
           (JObj [(''connection'', JStr ''c''), (''owner'', JStr ''o''), (''payer'', JStr ''p''),
                  (''side'', JStr ''buy''), (''price'', JNum (Fin 10)), (''size'', JNum (Fin 2)),
                  (''orderType'', JStr ''limit''),
                  (''opts'', JObj [(''clientId'', JNum (Fin 7)),
                                   (''openOrdersAddressKey'', JStr ''k''),
                                   (''openOrdersAccount'', JStr ''a''),
                                   (''feeDiscountPubkey'', JNull)])])
   = Inr (JObj [(''connection'', JStr ''c''),
                (''params'',
                 JObj [(''owner'', JStr ''o''), (''payer'', JStr ''p''), (''side'', JStr ''buy''),
                       (''price'', JNum (Fin 10)), (''size'', JNum (Fin 2)),
                       (''orderType'', JStr ''limit''), (''clientId'', JNum (Fin 7)),
                       (''openOrdersAddressKey'', JStr ''k''),
                       (''openOrdersAccount'', JStr ''a''),
                       (''feeDiscountPubkey'', JNull)])])"
proof -
  have init: "market (mock_client (Some ''m'')) = Some ''m''"
    by (simp add: mock_client_def)
  show ?thesis
    unfolding createPlaceOrderTx_forwards [OF init]
    by (simp add: mock_sdk_def)
qed

text \<open>
  Claim C10. On a client with a market handle and for every argument object: the call is
  the builder's call with the connection read from the argument, and the connection
  stored in the client has no influence on it; an argument without a connection
  property forwards undefined; an argument without an options bundle forwards undefined
  for the four optional fields, and the outcome is the builder's (the wrapper adds no
  failure of its own).
\<close>

theorem createPlaceOrderTx_connection_of_argument:
  assumes init: "market this = Some m"
    and object: "\<not> is_nullish arg"
  shows "(\<not> is_nullish (opts_of arg) \<longrightarrow>
            createPlaceOrderTx env this arg
              = makePlaceOrderTransaction env m (get_prop arg ''connection'') (order_params arg))
         \<and> createPlaceOrderTx env (this\<lparr>connection := stored\<rparr>) arg
             = createPlaceOrderTx env this arg
         \<and> (\<forall>ps. arg = JObj ps \<and> map_of ps ''connection'' = None \<longrightarrow>
               get_prop arg ''connection'' = JUndefined)
         \<and> (\<forall>ps. arg = JObj ps \<and> map_of ps ''opts'' = None \<longrightarrow>
               createPlaceOrderTx env this arg
                 = makePlaceOrderTransaction env m (get_prop arg ''connection'')
                     (JObj [(''owner'', get_prop arg ''owner''),
                            (''payer'', get_prop arg ''payer''),
                            (''side'', get_prop arg ''side''),
                            (''price'', get_prop arg ''price''),
                            (''size'', get_prop arg ''size''),
                            (''orderType'', get_prop arg ''orderType''),
                            (''clientId'', JUndefined),
                            (''openOrdersAddressKey'', JUndefined),
                            (''openOrdersAccount'', JUndefined),
                            (''feeDiscountPubkey'', JUndefined)]))"
proof -
  have forwarded: "createPlaceOrderTx env this arg
          = makePlaceOrderTransaction env m (get_prop arg ''connection'') (order_params arg)"
    if "\<not> is_nullish (opts_of arg)"
    using init object that by (simp add: createPlaceOrderTx_def)
  have independent: "createPlaceOrderTx env (this\<lparr>connection := stored\<rparr>) arg
             = createPlaceOrderTx env this arg"
    by (simp add: createPlaceOrderTx_def)
  have omitted_connection: "get_prop arg ''connection'' = JUndefined"
    if "arg = JObj ps" "map_of ps ''connection'' = None" for ps
    using that by simp
  have omitted_opts: "createPlaceOrderTx env this arg
                 = makePlaceOrderTransaction env m (get_prop arg ''connection'')
                     (JObj [(''owner'', get_prop arg ''owner''),
                            (''payer'', get_prop arg ''payer''),
                            (''side'', get_prop arg ''side''),
                            (''price'', get_prop arg ''price''),
                            (''size'', get_prop arg ''size''),
                            (''orderType'', get_prop arg ''orderType''),
                            (''clientId'', JUndefined),
                            (''openOrdersAddressKey'', JUndefined),
                            (''openOrdersAccount'', JUndefined),
                            (''feeDiscountPubkey'', JUndefined)])"
    if "arg = JObj ps" "map_of ps ''opts'' = None" for ps
  proof -
    from that have opts: "opts_of arg = JObj []"
      by (simp add: opts_of_def)
    then have "\<not> is_nullish (opts_of arg)"
      by (simp add: is_nullish_def)
    from forwarded [OF this] opts show ?thesis
      by (simp add: order_params_def)
  qed
  from forwarded independent omitted_connection omitted_opts show ?thesis
    by blast
qed

theorem createPlaceOrderTx_connection_of_argument_witness:
  "connection (mock_client (Some ''m'')) = JObj [(''commitment'', JStr ''recent'')]
   \<and> createPlaceOrderTx mock_sdk (mock_client (Some ''m''))
        (JObj [(''owner'', JStr ''o''), (''side'', JStr ''sell'')])
       = Inr (JObj [(''connection'', JUndefined),
                    (''params'',
                     JObj [(''owner'', JStr ''o''), (''payer'', JUndefined),
                           (''side'', JStr ''sell''), (''price'', JUndefined),
                           (''size'', JUndefined), (''orderType'', JUndefined),
                           (''clientId'', JUndefined),
                           (''openOrdersAddressKey'', JUndefined),
                           (''openOrdersAccount'', JUndefined),
                           (''feeDiscountPubkey'', JUndefined)])])"
proof -
  have init: "market (mock_client (Some ''m'')) = Some ''m''"
    by (simp add: mock_client_def)
  have object: "\<not> is_nullish (JObj [(''owner'', JStr ''o''), (''side'', JStr ''sell'')])"
    by (simp add: is_nullish_def)
  have stored: "connection (mock_client (Some ''m'')) = JObj [(''commitment'', JStr ''recent'')]"
    by (simp add: mock_client_def mock_connection_def)
  from createPlaceOrderTx_connection_of_argument [OF init object, of mock_sdk] stored
  show ?thesis
    by (simp add: mock_sdk_def)
qed

end
